theory Spec2Isabelle
  imports Complex_Main
begin

section \<open>The local-files route: strings and numbers as the JavaScript has them\<close>

text \<open>
  The development follows \<^verbatim>\<open>web/src/app/api/mcp/local-files/route.ts\<close>.
  A JavaScript string is a sequence of UTF-16 code units; it is modelled as a \<^typ>\<open>string\<close>,
  one \<^typ>\<open>char\<close> per code unit, so \<open>length\<close> is the source's \<^verbatim>\<open>.length\<close>.
  Only code units below 256 are representable; slicing and counting do not look at them.
\<close>

text \<open>Template literals print an integer in decimal: \<^verbatim>\<open>`${i}`\<close>.\<close>

fun show_nat :: "nat \<Rightarrow> string" where
  "show_nat n =
     (if n < 10 then [char_of (48 + n)]
      else show_nat (n div 10) @ [char_of (48 + n mod 10)])"

declare show_nat.simps [simp del]

definition show_int :: "int \<Rightarrow> string" where
  "show_int i = (if i < 0 then CHR ''-'' # show_nat (nat (- i)) else show_nat (nat i))"

text \<open>
  \<^verbatim>\<open>String.prototype.slice(start, stop)\<close>: a negative bound counts from the end, both
  bounds are clamped to the string, and an empty range gives the empty string.
\<close>

definition slice :: "string \<Rightarrow> int \<Rightarrow> int \<Rightarrow> string" where
  "slice s start stop =
     (let len = int (length s);
          lo = (if start < 0 then max (len + start) 0 else min start len);
          hi = (if stop < 0 then max (len + stop) 0 else min stop len)
      in if hi \<le> lo then [] else take (nat (hi - lo)) (drop (nat lo) s))"

section \<open>chunkContent\<close>

text \<open>
  \<^verbatim>\<open>
  function chunkContent(content: string, chunkSize: number = 1000) {
    const chunks = [];
    for (let i = 0; i < content.length; i += chunkSize) {
      chunks.push({
        id: `chunk_${i}`,
        content: content.slice(i, i + chunkSize),
        index: Math.floor(i / chunkSize)
      });
    }
    return chunks;
  }
  \<close>
  The chunk size is an integer here. The loop does not end when the text is not empty and the
  chunk size is zero or negative, so the loop is a partial function: \<open>None\<close> is "never
  returns". \<open>Math.floor (i / chunkSize)\<close> is \<open>div\<close> on \<^typ>\<open>int\<close>.
\<close>

record chunk =
  chunk_id :: string
  content :: string
  index :: int

partial_function (option) chunkLoop :: "string \<Rightarrow> int \<Rightarrow> int \<Rightarrow> chunk list \<Rightarrow> chunk list option" where
  "chunkLoop str chunkSize i chunks =
     (if i < int (length str)
      then chunkLoop str chunkSize (i + chunkSize)
             (chunks @ [\<lparr>chunk_id = ''chunk_'' @ show_int i,
                         content = slice str i (i + chunkSize),
                         index = i div chunkSize\<rparr>])
      else Some chunks)"

declare chunkLoop.simps [code]

definition chunkContent :: "string \<Rightarrow> int \<Rightarrow> chunk list option" where
  "chunkContent str chunkSize = chunkLoop str chunkSize 0 []"

text \<open>The value of the default parameter \<^verbatim>\<open>chunkSize: number = 1000\<close>.\<close>

definition defaultChunkSize :: int where
  "defaultChunkSize = 1000"

section \<open>getMimeType\<close>

text \<open>
  \<^verbatim>\<open>
  function getMimeType(fileName: string): string {
    const ext = fileName.split('.').pop()?.toLowerCase();
    const mimeTypes: { [key: string]: string } = { 'pdf': 'application/pdf', ... };
    return mimeTypes[ext || ''] || 'application/octet-stream';
  }
  \<close>
  \<open>split\<close> with a one-character separator never returns an empty array: a string with no
  separator is returned whole, as the only element.
\<close>

fun splitString :: "char \<Rightarrow> string \<Rightarrow> string list" where
  "splitString sep [] = [[]]"
| "splitString sep (c # cs) =
     (if c = sep then [] # splitString sep cs
      else (case splitString sep cs of
              [] \<Rightarrow> [[c]]
            | seg # segs \<Rightarrow> (c # seg) # segs))"

text \<open>\<^verbatim>\<open>Array.prototype.pop\<close>: the last element, \<open>undefined\<close> (here \<open>None\<close>) for an empty array.\<close>

definition pop :: "'a list \<Rightarrow> 'a option" where
  "pop xs = (if xs = [] then None else Some (last xs))"

text \<open>
  \<^verbatim>\<open>toLowerCase\<close> on the code units below 256: the letters A to Z, and the Latin-1 capitals
  U+00C0 to U+00DE except the multiplication sign U+00D7, move up by 32.
\<close>

definition toLowerCaseChar :: "char \<Rightarrow> char" where
  "toLowerCaseChar c =
     (let n = (of_char c :: nat)
      in if 65 \<le> n \<and> n \<le> 90 then char_of (n + 32)
         else if 192 \<le> n \<and> n \<le> 222 \<and> n \<noteq> 215 then char_of (n + 32)
         else c)"

definition toLowerCase :: "string \<Rightarrow> string" where
  "toLowerCase s = map toLowerCaseChar s"

definition mimeTypes :: "(string \<times> string) list" where
  "mimeTypes =
     [(''pdf'', ''application/pdf''),
      (''docx'', ''application/vnd.openxmlformats-officedocument.wordprocessingml.document''),
      (''txt'', ''text/plain''),
      (''md'', ''text/markdown''),
      (''html'', ''text/html''),
      (''jpg'', ''image/jpeg''),
      (''png'', ''image/png'')]"

text \<open>
  \<open>mimeTypes\<close> is an object literal, so \<^verbatim>\<open>mimeTypes[key]\<close> also finds what the object
  inherits from \<^verbatim>\<open>Object.prototype\<close>: functions and an object, none of them a string, all of
  them truthy.
\<close>

definition objectPrototypeKeys :: "string list" where
  "objectPrototypeKeys =
     [''constructor'', ''__defineGetter__'', ''__defineSetter__'', ''hasOwnProperty'',
      ''__lookupGetter__'', ''__lookupSetter__'', ''isPrototypeOf'', ''propertyIsEnumerable'',
      ''toString'', ''valueOf'', ''__proto__'', ''toLocaleString'']"

datatype property = Str string | Inherited string | Undefined

definition getProperty :: "(string \<times> string) list \<Rightarrow> string \<Rightarrow> property" where
  "getProperty obj key =
     (case map_of obj key of
        Some v \<Rightarrow> Str v
      | None \<Rightarrow> if key \<in> set objectPrototypeKeys then Inherited key else Undefined)"

fun truthy :: "property \<Rightarrow> bool" where
  "truthy (Str v) = (v \<noteq> [])"
| "truthy (Inherited k) = True"
| "truthy Undefined = False"

definition getMimeType :: "string \<Rightarrow> property" where
  "getMimeType fileName =
     (let ext = map_option toLowerCase (pop (splitString CHR ''.'' fileName));
          key = (case ext of None \<Rightarrow> [] | Some e \<Rightarrow> e);
          found = getProperty mimeTypes key
      in if truthy found then found else Str ''application/octet-stream'')"

section \<open>The environment of the route handlers\<close>

text \<open>
  What a \<^verbatim>\<open>catch\<close> clause receives, and the source's reading of it:
  \<^verbatim>\<open>error instanceof Error ? error.message : 'Unknown error'\<close>.
\<close>

datatype thrown = Error string | NonError

fun errorMessage :: "thrown \<Rightarrow> string" where
  "errorMessage (Error m) = m"
| "errorMessage NonError = ''Unknown error''"

text \<open>
  The outcome of \<^verbatim>\<open>await fetch(...)\<close> followed by \<^verbatim>\<open>await response.json()\<close>: the fetch is
  rejected, or there is a response with a status and a body that is read (\<open>Inr\<close>) or whose
  parsing or reading throws (\<open>Inl\<close>). \<^verbatim>\<open>response.ok\<close> is true for the statuses 200 to 299.
\<close>

datatype 'a fetched = Rejected thrown | Response nat "thrown + 'a"

definition ok :: "nat \<Rightarrow> bool" where
  "ok status = (200 \<le> status \<and> status \<le> 299)"

record env =
  ALLOWED_DIRECTORY :: "string option"
  MCP_SERVER_URL :: "string option"
  ONYX_BACKEND_URL :: "string option"
  ONYX_API_KEY :: "string option"

text \<open>\<^verbatim>\<open>process.env.X || d\<close>: an unset or empty variable gives the default.\<close>

definition orDefault :: "string option \<Rightarrow> string \<Rightarrow> string" where
  "orDefault v d = (case v of None \<Rightarrow> d | Some x \<Rightarrow> if x = [] then d else x)"

type_synonym metadata = "(string \<times> string) list"

text \<open>
  The JSON-RPC reply of the MCP server, as far as the route reads it: \<open>data_error\<close> is
  \<^verbatim>\<open>data.error\<close> when it is truthy, holding the text that \<^verbatim>\<open>${data.error.message}\<close> prints;
  \<open>result_content\<close> and \<open>result_metadata\<close> are \<^verbatim>\<open>data.result?.content\<close> and
  \<^verbatim>\<open>data.result?.metadata\<close> when they are truthy. The server is a function of the URL, the
  tool name and the tool's arguments.
\<close>

record 'c mcp_data =
  data_error :: "string option"
  result_content :: "'c option"
  result_metadata :: "metadata option"

type_synonym 'c mcp_server = "string \<Rightarrow> string \<Rightarrow> (string \<times> string) list \<Rightarrow> 'c mcp_data fetched"

text \<open>
  What \<open>callMCPServer\<close> returns: \<^verbatim>\<open>{success: true, content, metadata}\<close> or
  \<^verbatim>\<open>{success: false, error}\<close>. In \<open>McpSuccess\<close> the content \<open>None\<close> stands for the empty
  string that \<^verbatim>\<open>data.result?.content || ''\<close> puts in place of a missing content.
\<close>

datatype 'c mcp_response = McpSuccess "'c option" metadata | McpFailure string

fun mcp_success :: "'c mcp_response \<Rightarrow> bool" where
  "mcp_success (McpSuccess c md) = True"
| "mcp_success (McpFailure e) = False"

definition callMCPServer :: "env \<Rightarrow> 'c mcp_server \<Rightarrow> string \<Rightarrow> (string \<times> string) list \<Rightarrow> 'c mcp_response" where
  "callMCPServer e server tool params =
     (let mcpServerUrl = orDefault (MCP_SERVER_URL e) ''http://localhost:8001'';
          tried =
            (case server (mcpServerUrl @ ''/mcp'') tool params of
               Rejected err \<Rightarrow> Inl err
             | Response status body \<Rightarrow>
                 if \<not> ok status
                 then Inl (Error (''MCP server responded with status: '' @ show_nat status))
                 else (case body of
                         Inl err \<Rightarrow> Inl err
                       | Inr data \<Rightarrow>
                           (case data_error data of
                              Some m \<Rightarrow> Inl (Error (''MCP server error: '' @ m))
                            | None \<Rightarrow>
                                Inr (McpSuccess (result_content data)
                                       (case result_metadata data of None \<Rightarrow> [] | Some md \<Rightarrow> md)))))
      in case tried of
           Inr r \<Rightarrow> r
         | Inl err \<Rightarrow> McpFailure (''MCP server call failed: '' @ errorMessage err))"

section \<open>processDocumentContent\<close>

text \<open>
  \<^verbatim>\<open>
  let textContent = content;
  try { textContent = Buffer.from(content, 'base64').toString('utf-8'); } catch (error) { ... }
  const chunks = chunkContent(textContent);
  const processedMetadata = { ...metadata, fileName, filePath, fileType,
    processedAt: new Date().toISOString(), chunkCount: chunks.length,
    originalSize: textContent.length, source: 'local_file', mcpProcessed: true };
  return { fileName, content: textContent, chunks, metadata: processedMetadata };
  \<close>
  The platform's decoder \<^verbatim>\<open>Buffer.from(_, 'base64').toString('utf-8')\<close> is the parameter
  \<open>decode\<close>; \<open>Inl\<close> is a decoder that throws, and then the content is used as it is. The
  clock is the parameter \<open>clock\<close>: \<open>clock k\<close> is what the \<open>k\<close>-th \<^verbatim>\<open>new Date().toISOString()\<close>
  of a handler returns. The keys written after the spread replace the same keys of
  \<open>metadata\<close>; \<open>spread\<close> keeps the others, their values as text.
\<close>

definition ownKeys :: "string list" where
  "ownKeys =
     [''fileName'', ''filePath'', ''fileType'', ''processedAt'', ''chunkCount'',
      ''originalSize'', ''source'', ''mcpProcessed'']"

record processed_metadata =
  spread :: metadata
  meta_fileName :: string
  meta_filePath :: string
  meta_fileType :: string
  processedAt :: string
  chunkCount :: nat
  originalSize :: nat
  source :: string
  mcpProcessed :: bool

record document =
  doc_fileName :: string
  doc_content :: string
  doc_chunks :: "chunk list"
  doc_metadata :: processed_metadata

definition processDocumentContent ::
    "(string \<Rightarrow> thrown + string) \<Rightarrow> (nat \<Rightarrow> string) \<Rightarrow> string \<Rightarrow> string \<Rightarrow> string \<Rightarrow> string \<Rightarrow> metadata
       \<Rightarrow> document option" where
  "processDocumentContent decode clock fName fPath fType cont md =
     (let textContent = (case decode cont of Inl err \<Rightarrow> cont | Inr decoded \<Rightarrow> decoded)
      in case chunkContent textContent defaultChunkSize of
           None \<Rightarrow> None
         | Some chunks \<Rightarrow>
             Some \<lparr>doc_fileName = fName,
                   doc_content = textContent,
                   doc_chunks = chunks,
                   doc_metadata =
                     \<lparr>spread = filter (\<lambda>kv. fst kv \<notin> set ownKeys) md,
                      meta_fileName = fName,
                      meta_filePath = fPath,
                      meta_fileType = fType,
                      processedAt = clock 0,
                      chunkCount = length chunks,
                      originalSize = length textContent,
                      source = ''local_file'',
                      mcpProcessed = True\<rparr>\<rparr>)"

section \<open>addDocumentToOnyx\<close>

text \<open>
  The Onyx backend is a function of the URL, the \<^verbatim>\<open>Authorization\<close> header and the document
  posted; its reply is read for \<^verbatim>\<open>document_id\<close> and \<^verbatim>\<open>file_id\<close>. \<open>random k\<close> is what the
  \<open>k\<close>-th \<^verbatim>\<open>Math.random().toString(36).substr(2, 9)\<close> returns.
  \<^verbatim>\<open>
  } catch (error) {
    // Fallback: simulate success for demo purposes
    return { success: true, documentId: `doc_${...}`, fileId: `file_${...}`,
             chunks: documentData.chunks.length,
             warning: 'Onyx backend not available - using fallback' };
  }
  \<close>
\<close>

record onyx_result =
  document_id :: "string option"
  file_id :: "string option"

type_synonym onyx_server = "string \<Rightarrow> string \<Rightarrow> document \<Rightarrow> onyx_result fetched"

record onyx_response =
  onyx_success :: bool
  onyx_documentId :: "string option"
  onyx_fileId :: "string option"
  onyx_chunks :: nat
  onyx_warning :: "string option"
  onyx_error :: "string option"

definition addDocumentToOnyx :: "env \<Rightarrow> onyx_server \<Rightarrow> (nat \<Rightarrow> string) \<Rightarrow> document \<Rightarrow> onyx_response" where
  "addDocumentToOnyx e server random documentData =
     (let onyxBackendUrl = orDefault (ONYX_BACKEND_URL e) ''http://localhost:8080'';
          authorization = ''Bearer '' @ orDefault (ONYX_API_KEY e) [];
          tried =
            (case server (onyxBackendUrl @ ''/api/documents'') authorization documentData of
               Rejected err \<Rightarrow> Inl err
             | Response status body \<Rightarrow>
                 if \<not> ok status
                 then Inl (Error (''Onyx backend responded with status: '' @ show_nat status))
                 else (case body of
                         Inl err \<Rightarrow> Inl err
                       | Inr result \<Rightarrow>
                           Inr \<lparr>onyx_success = True,
                                onyx_documentId = document_id result,
                                onyx_fileId = file_id result,
                                onyx_chunks = length (doc_chunks documentData),
                                onyx_warning = None,
                                onyx_error = None\<rparr>))
      in case tried of
           Inr r \<Rightarrow> r
         | Inl err \<Rightarrow>
             \<lparr>onyx_success = True,
              onyx_documentId = Some (''doc_'' @ random 0),
              onyx_fileId = Some (''file_'' @ random 1),
              onyx_chunks = length (doc_chunks documentData),
              onyx_warning = Some ''Onyx backend not available - using fallback'',
              onyx_error = None\<rparr>)"

section \<open>GET: listing local files\<close>

datatype file_kind = File | Folder





section \<open>POST: ingesting a local file\<close>

text \<open>
  The request is \<open>Inl\<close> when \<^verbatim>\<open>request.json()\<close> or the reading of the body throws, and
  the parsed body otherwise.
  A response is the success payload with status 200, or
  \<^verbatim>\<open>{success: false, error: `Failed to ingest file: ${...}`}\<close> with status 500.
  The handler returns \<open>None\<close> only if the chunking loop does not end.
\<close>

record ingest_request =
  filePath :: string
  fileName :: string
  fileType :: string

datatype post_response =
    Ingested string "string option" "string option" nat processed_metadata
  | Failed string

fun post_success :: "post_response \<Rightarrow> bool" where
  "post_success (Ingested msg documentId fileId chunks md) = True"
| "post_success (Failed err) = False"

fun post_status :: "post_response \<Rightarrow> nat" where
  "post_status (Ingested msg documentId fileId chunks md) = 200"
| "post_status (Failed err) = 500"

definition caught :: "thrown \<Rightarrow> post_response" where
  "caught err = Failed (''Failed to ingest file: '' @ errorMessage err)"

definition POST ::
    "env \<Rightarrow> string mcp_server \<Rightarrow> onyx_server \<Rightarrow> (string \<Rightarrow> thrown + string) \<Rightarrow> (nat \<Rightarrow> string)
       \<Rightarrow> (nat \<Rightarrow> string) \<Rightarrow> thrown + ingest_request \<Rightarrow> post_response option" where
  "POST e mcp onyx decode clock random request =
     (case request of
        Inl err \<Rightarrow> Some (caught err)
      | Inr body \<Rightarrow>
          (case callMCPServer e mcp ''read_file''
                  [(''path'', filePath body), (''file_name'', fileName body)] of
             McpFailure err \<Rightarrow> Some (caught (Error (''MCP server error: '' @ err)))
           | McpSuccess c md \<Rightarrow>
               (case processDocumentContent decode clock (fileName body) (filePath body)
                       (fileType body) (case c of None \<Rightarrow> [] | Some t \<Rightarrow> t) md of
                  None \<Rightarrow> None
                | Some documentData \<Rightarrow>
                    (let onyxResponse = addDocumentToOnyx e onyx random documentData
                     in if \<not> onyx_success onyxResponse
                        then Some (caught (Error (''Onyx integration error: '' @
                               (case onyx_error onyxResponse of
                                  None \<Rightarrow> ''Unknown error''
                                | Some m \<Rightarrow> if m = [] then ''Unknown error'' else m))))
                        else Some (Ingested
                               (''Successfully ingested '' @ fileName body @ '' into Onyx'')
                               (onyx_documentId onyxResponse)
                               (onyx_fileId onyxResponse)
                               (onyx_chunks onyxResponse)
                               (doc_metadata documentData))))))"

section \<open>Notions used to state the properties\<close>

text \<open>
  The chunk the loop pushes in its \<open>j\<close>-th round for a chunk size \<open>m\<close>, and the number of
  rounds it makes on a text of a given length.
\<close>

definition chunkAt :: "string \<Rightarrow> nat \<Rightarrow> nat \<Rightarrow> chunk" where
  "chunkAt str m j =
     \<lparr>chunk_id = ''chunk_'' @ show_int (int (j * m)),
      content = take m (drop (j * m) str),
      index = int j\<rparr>"

definition chunkTotal :: "nat \<Rightarrow> nat \<Rightarrow> nat" where
  "chunkTotal len m = (len + m - 1) div m"

text \<open>
  The specification's way back from chunks to the text: the first chunk whole, then every
  later chunk without its first \<open>overlap\<close> characters.
\<close>

fun reassemble :: "nat \<Rightarrow> chunk list \<Rightarrow> string" where
  "reassemble overlap [] = []"
| "reassemble overlap (c # cs) = content c @ concat (map (\<lambda>d. drop overlap (content d)) cs)"


text \<open>The extension of a file name as \<open>getMimeType\<close> takes it: the text after the last dot, in lower case.\<close>

definition lastSegment :: "string \<Rightarrow> string" where
  "lastSegment fName = toLowerCase (last (splitString CHR ''.'' fName))"

text \<open>An environment with no variable set, for the examples.\<close>

definition noEnv :: env where
  "noEnv = \<lparr>ALLOWED_DIRECTORY = None, MCP_SERVER_URL = None, ONYX_BACKEND_URL = None,
            ONYX_API_KEY = None\<rparr>"

text \<open>
  The URL \<open>callMCPServer\<close> posts to, the URL and the \<^verbatim>\<open>Authorization\<close> header
  \<open>addDocumentToOnyx\<close> posts with, the arguments \<open>POST\<close> gives the \<open>read_file\<close> tool, and
  when the reply to such a call counts as a failure in \<open>callMCPServer\<close>: as for
  \<open>fetchFailed\<close>, or a parsed body that carries an error.
\<close>

definition mcpEndpoint :: "env \<Rightarrow> string" where
  "mcpEndpoint e = orDefault (MCP_SERVER_URL e) ''http://localhost:8001'' @ ''/mcp''"



definition readFileArgs :: "ingest_request \<Rightarrow> (string \<times> string) list" where
  "readFileArgs body = [(''path'', filePath body), (''file_name'', fileName body)]"


fun mcpFailed :: "'c mcp_data fetched \<Rightarrow> bool" where
  "mcpFailed (Rejected err) = True"
| "mcpFailed (Response status (Inl err)) = True"
| "mcpFailed (Response status (Inr data)) = (\<not> ok status \<or> data_error data \<noteq> None)"

text \<open>The text \<open>processDocumentContent\<close> goes on with: the decoded content, or the content as it is.\<close>

definition decodedText :: "(string \<Rightarrow> thrown + string) \<Rightarrow> string \<Rightarrow> string" where
  "decodedText decode cont = (case decode cont of Inl err \<Rightarrow> cont | Inr decoded \<Rightarrow> decoded)"

text \<open>Servers and requests for the examples.\<close>

definition unreachable :: "'c mcp_server" where
  "unreachable url tool params = Rejected (Error ''connect ECONNREFUSED 127.0.0.1:8001'')"

definition servingHello :: "string mcp_server" where
  "servingHello url tool params =
     Response 200 (Inr \<lparr>data_error = None, result_content = Some ''aGVsbG8='',
                         result_metadata = None\<rparr>)"

definition denying :: "string mcp_server" where
  "denying url tool params =
     Response 200 (Inr \<lparr>data_error = Some ''EACCES: permission denied, open /home/alice/.ssh/id_rsa'',
                         result_content = None, result_metadata = None\<rparr>)"

definition busy :: "string mcp_server" where
  "busy url tool params = Response 503 (Inl NonError)"

definition garbled :: "string mcp_server" where
  "garbled url tool params = Response 200 (Inl (Error ''Unexpected token < in JSON at position 0''))"

definition onyxStoring :: onyx_server where
  "onyxStoring url authorization documentData =
     Response 201 (Inr \<lparr>document_id = Some ''42'', file_id = Some ''7''\<rparr>)"


definition base64Hello :: "string \<Rightarrow> thrown + string" where
  "base64Hello s = (if s = ''aGVsbG8='' then Inr ''hello'' else Inr [])"

definition setupExe :: ingest_request where
  "setupExe = \<lparr>filePath = ''/tmp/setup.exe'', fileName = ''setup.exe'', fileType = ''file''\<rparr>"


definition fixedClock :: "nat \<Rightarrow> string" where
  "fixedClock k = ''2024-01-01T00:00:00.000Z''"

definition fixedRandom :: "nat \<Rightarrow> string" where
  "fixedRandom k = (if k = 0 then ''k3j9x0q1z'' else ''p0o9i8u7y'')"

section \<open>What the chunking loop computes\<close>

lemma slice_window: "slice str (int a) (int a + int m) = take m (drop a str)"
  by (auto simp: slice_def Let_def min_def nat_diff_distrib' nat_add_distrib)

lemma before_end_iff:
  assumes "0 < m"
  shows "(k * m < len) = (k < chunkTotal len m)"
proof -
  have "(k < chunkTotal len m) = (Suc k \<le> (len + m - 1) div m)"
    by (simp add: chunkTotal_def Suc_le_eq)
  also have "\<dots> = (Suc k * m \<le> len + m - 1)"
    using assms by (simp add: less_eq_div_iff_mult_less_eq)
  also have "\<dots> = (k * m < len)"
    using assms by auto
  finally show ?thesis by simp
qed

lemma chunkLoop_closed:
  assumes "0 < m"
  shows "chunkLoop str (int m) (int (k * m)) acc
           = Some (acc @ map (chunkAt str m) [k ..< chunkTotal (length str) m])"
proof (induction "chunkTotal (length str) m - k" arbitrary: k acc)
  case 0
  then have "\<not> k < chunkTotal (length str) m" by simp
  then have "\<not> k * m < length str" using before_end_iff [OF assms] by simp
  then have "\<not> int (k * m) < int (length str)" by (simp only: of_nat_less_iff not_False_eq_True)
  then show ?case using 0 by (subst chunkLoop.simps) (simp only: if_False upt_conv_Nil list.map append_Nil2)
next
  case (Suc d)
  then have lt: "k < chunkTotal (length str) m" by simp
  then have run: "k * m < length str" using before_end_iff [OF assms] by simp
  have step: "int (k * m) + int m = int (Suc k * m)" by simp
  have idx: "int (k * m) div int m = int k"
    using assms by (simp flip: of_nat_mult of_nat_div)
  have d: "d = chunkTotal (length str) m - Suc k" using Suc.hyps(2) by simp
  have "chunkLoop str (int m) (int (k * m)) acc
          = chunkLoop str (int m) (int (Suc k * m)) (acc @ [chunkAt str m k])"
    using run
    by (subst chunkLoop.simps) (simp only: step [symmetric] slice_window idx chunkAt_def if_True of_nat_less_iff)
  also have "\<dots> = Some ((acc @ [chunkAt str m k]) @ map (chunkAt str m) [Suc k ..< chunkTotal (length str) m])"
    by (rule Suc.hyps(1) [OF d])
  also have "\<dots> = Some (acc @ map (chunkAt str m) [k ..< chunkTotal (length str) m])"
    using lt by (simp add: upt_conv_Cons)
  finally show ?case .
qed

lemma chunkContent_closed:
  assumes "0 < m"
  shows "chunkContent str (int m) = Some (map (chunkAt str m) [0 ..< chunkTotal (length str) m])"
  using chunkLoop_closed [OF assms, of str 0 "[]"] by (simp add: chunkContent_def)

lemma chunkContent_positive:
  assumes "0 < chunkSize"
  shows "chunkContent str chunkSize
           = Some (map (chunkAt str (nat chunkSize)) [0 ..< chunkTotal (length str) (nat chunkSize)])"
  using chunkContent_closed [of "nat chunkSize" str] assms by simp

lemma content_chunkAt: "content (chunkAt str m j) = take m (drop (j * m) str)"
  by (simp add: chunkAt_def)

lemma index_chunkAt: "index (chunkAt str m j) = int j"
  by (simp add: chunkAt_def)

lemma concat_windows: "concat (map (\<lambda>j. take m (drop (j * m) str)) [0 ..< k]) = take (k * m) str"
proof (induction k)
  case 0
  show ?case by simp
next
  case (Suc k)
  have "Suc k * m = k * m + m" by simp
  then have "take (Suc k * m) str = take (k * m) str @ take m (drop (k * m) str)"
    by (simp only: take_add)
  with Suc show ?case by simp
qed

lemma chunkTotal_covers:
  assumes "0 < m"
  shows "len \<le> chunkTotal len m * m"
proof (rule ccontr)
  assume "\<not> len \<le> chunkTotal len m * m"
  then have "chunkTotal len m * m < len" by simp
  then have "chunkTotal len m < chunkTotal len m" using before_end_iff [OF assms] by simp
  then show False by simp
qed

lemma concat_chunkAt:
  assumes "0 < m"
  shows "concat (map content (map (chunkAt str m) [0 ..< chunkTotal (length str) m])) = str"
proof -
  have "concat (map content (map (chunkAt str m) [0 ..< chunkTotal (length str) m]))
          = concat (map (\<lambda>j. take m (drop (j * m) str)) [0 ..< chunkTotal (length str) m])"
    by (simp add: content_chunkAt comp_def)
  also have "\<dots> = take (chunkTotal (length str) m * m) str"
    by (rule concat_windows)
  also have "\<dots> = str"
    using chunkTotal_covers [OF assms, of "length str"] by simp
  finally show ?thesis .
qed

lemma reassemble_zero: "reassemble 0 cs = concat (map content cs)"
  by (cases cs) simp_all

lemma index_chunks: "map index (map (chunkAt str m) [0 ..< k]) = map int [0 ..< k]"
  by (simp add: index_chunkAt comp_def)

text \<open>With a chunk size of zero or less the loop does not end on a text that is not empty.\<close>

lemma chunkLoop_never_returns:
  assumes "chunkLoop str chunkSize i chunks = Some result"
  shows "\<not> (chunkSize \<le> 0 \<and> i < int (length str))"
proof (rule chunkLoop.raw_induct
         [where P = "\<lambda>s n k cs r. \<not> (n \<le> 0 \<and> k < int (length s))", OF _ assms])
  fix loop :: "string \<Rightarrow> int \<Rightarrow> int \<Rightarrow> chunk list \<Rightarrow> chunk list option"
  fix s n k cs r
  assume IH: "\<And>s n k cs r. loop s n k cs = Some r \<Longrightarrow> \<not> (n \<le> 0 \<and> k < int (length s))"
  assume step: "(if k < int (length s)
                 then loop s n (k + n)
                        (cs @ [\<lparr>chunk_id = ''chunk_'' @ show_int k,
                                content = slice s k (k + n),
                                index = k div n\<rparr>])
                 else Some cs) = Some r"
  show "\<not> (n \<le> 0 \<and> k < int (length s))"
  proof
    assume stuck: "n \<le> 0 \<and> k < int (length s)"
    with step have "loop s n (k + n)
                      (cs @ [\<lparr>chunk_id = ''chunk_'' @ show_int k,
                              content = slice s k (k + n),
                              index = k div n\<rparr>]) = Some r"
      by simp
    then have "\<not> (n \<le> 0 \<and> k + n < int (length s))" by (rule IH)
    with stuck show False by simp
  qed
qed

lemma chunkContent_diverges:
  assumes "chunkSize \<le> 0" and "str \<noteq> []"
  shows "chunkContent str chunkSize = None"
proof (cases "chunkContent str chunkSize")
  case None
  then show ?thesis .
next
  case (Some result)
  then have "\<not> (chunkSize \<le> 0 \<and> 0 < int (length str))"
    unfolding chunkContent_def by (rule chunkLoop_never_returns)
  with assms show ?thesis by simp
qed

text \<open>Every chunk is the window of the text that starts at its index times the chunk size.\<close>

lemma chunks_are_exact_windows:
  assumes "0 < chunkSize" and "chunkContent str chunkSize = Some chunks" and "j < length chunks"
  shows "content (chunks ! j) = take (nat chunkSize) (drop (j * nat chunkSize) str)"
proof -
  have "chunks = map (chunkAt str (nat chunkSize)) [0 ..< chunkTotal (length str) (nat chunkSize)]"
    using chunkContent_positive [OF assms(1), of str] assms(2) by simp
  then show ?thesis using assms(3) by (simp add: content_chunkAt)
qed

lemma show_1000: "show_int 1000 = ''1000''" by code_simp
lemma show_0: "show_int 0 = ''0''" by code_simp

lemma two_chunks:
  assumes "1000 < length str" "length str \<le> 2000"
  shows "chunkContent str defaultChunkSize =
           Some [\<lparr>chunk_id = ''chunk_0'', content = take 1000 str, index = 0\<rparr>,
                 \<lparr>chunk_id = ''chunk_1000'', content = drop 1000 str, index = 1\<rparr>]"
proof -
  have total: "chunkTotal (length str) 1000 = 2"
    using assms by (simp add: chunkTotal_def)
  have upt: "[0 ..< (2::nat)] = [0, 1]" by (simp add: upt_rec)
  have "chunkContent str defaultChunkSize = Some (map (chunkAt str 1000) [0 ..< chunkTotal (length str) 1000])"
    using chunkContent_positive [of defaultChunkSize str] by (simp add: defaultChunkSize_def)
  then show ?thesis
    using assms by (simp add: total upt chunkAt_def show_1000 show_0)
qed

lemma ceiling_chunks: "int ((n + 999) div 1000) = \<lceil>real n / 1000\<rceil>"
proof -
  have "\<lceil>real n / 1000\<rceil> = \<lceil>real_of_int (int n) / real_of_int 1000\<rceil>" by simp
  also have "\<dots> = - (- int n div 1000)" by (rule ceiling_divide_eq_div)
  also have "\<dots> = (int n + 999) div 1000" by linarith
  also have "\<dots> = int ((n + 999) div 1000)" by (simp add: zdiv_int)
  finally show ?thesis by simp
qed

lemma processDocumentContent_value:
  "processDocumentContent decode clock fName fPath fType cont md =
     Some \<lparr>doc_fileName = fName,
           doc_content = decodedText decode cont,
           doc_chunks = map (chunkAt (decodedText decode cont) 1000)
                          [0 ..< chunkTotal (length (decodedText decode cont)) 1000],
           doc_metadata =
             \<lparr>spread = filter (\<lambda>kv. fst kv \<notin> set ownKeys) md,
              meta_fileName = fName,
              meta_filePath = fPath,
              meta_fileType = fType,
              processedAt = clock 0,
              chunkCount = chunkTotal (length (decodedText decode cont)) 1000,
              originalSize = length (decodedText decode cont),
              source = ''local_file'',
              mcpProcessed = True\<rparr>\<rparr>"
proof -
  have "chunkContent (decodedText decode cont) defaultChunkSize
          = Some (map (chunkAt (decodedText decode cont) 1000)
                    [0 ..< chunkTotal (length (decodedText decode cont)) 1000])"
    using chunkContent_positive [of defaultChunkSize "decodedText decode cont"]
    by (simp add: defaultChunkSize_def)
  then show ?thesis
    by (simp add: processDocumentContent_def Let_def decodedText_def)
qed

section \<open>What getMimeType computes\<close>

lemma splitString_nonempty: "splitString sep s \<noteq> []"
  by (induction s) (auto split: list.splits)

lemma key_of_file:
  "(case map_option toLowerCase (pop (splitString CHR ''.'' file)) of None \<Rightarrow> [] | Some e \<Rightarrow> e)
     = lastSegment file"
  by (simp add: pop_def splitString_nonempty lastSegment_def)

lemma getMimeType_by_segment:
  "getMimeType file =
     (if truthy (getProperty mimeTypes (lastSegment file))
      then getProperty mimeTypes (lastSegment file)
      else Str ''application/octet-stream'')"
  by (simp only: getMimeType_def Let_def key_of_file)

lemma mimeTypes_lookup:
  "map_of mimeTypes k = Some v \<Longrightarrow> v \<noteq> []"
  by (auto simp: mimeTypes_def split: if_splits)

lemma mimeTypes_unknown:
  "k \<notin> {''pdf'', ''docx'', ''txt'', ''md'', ''html'', ''jpg'', ''png''} \<Longrightarrow> map_of mimeTypes k = None"
  by (simp add: mimeTypes_def)

lemma seg_gz: "lastSegment ''archive.tar.GZ'' = ''gz''" by code_simp

section \<open>What the handlers compute\<close>

lemma callMCPServer_success_iff:
  "mcp_success (callMCPServer e server tool params) = (\<not> mcpFailed (server (mcpEndpoint e) tool params))"
  by (cases "server (mcpEndpoint e) tool params" rule: mcpFailed.cases)
     (auto simp: callMCPServer_def mcpEndpoint_def Let_def split: option.splits)

lemma addDocumentToOnyx_success: "onyx_success (addDocumentToOnyx e onyx random d)"
  by (auto simp: addDocumentToOnyx_def Let_def split: fetched.splits sum.splits)

lemma addDocumentToOnyx_chunks: "onyx_chunks (addDocumentToOnyx e onyx random d) = length (doc_chunks d)"
  by (auto simp: addDocumentToOnyx_def Let_def split: fetched.splits sum.splits)




lemma POST_mcp_failure:
  assumes "callMCPServer e mcp ''read_file'' (readFileArgs body) = McpFailure err"
  shows "POST e mcp onyx decode clock random (Inr body)
           = Some (Failed (''Failed to ingest file: MCP server error: '' @ err))"
  using assms by (simp add: POST_def readFileArgs_def caught_def)

lemma POST_mcp_success:
  assumes "callMCPServer e mcp ''read_file'' (readFileArgs body) = McpSuccess c md"
  shows "\<exists>d. processDocumentContent decode clock (fileName body) (filePath body) (fileType body)
               (case c of None \<Rightarrow> [] | Some t \<Rightarrow> t) md = Some d
           \<and> POST e mcp onyx decode clock random (Inr body)
               = Some (Ingested (''Successfully ingested '' @ fileName body @ '' into Onyx'')
                        (onyx_documentId (addDocumentToOnyx e onyx random d))
                        (onyx_fileId (addDocumentToOnyx e onyx random d))
                        (length (doc_chunks d))
                        (doc_metadata d))"
  using assms
  by (simp add: POST_def readFileArgs_def processDocumentContent_value Let_def
        addDocumentToOnyx_success addDocumentToOnyx_chunks)

lemma callMCPServer_by_endpoint:
  "callMCPServer e server tool params =
     (case server (mcpEndpoint e) tool params of
        Rejected err \<Rightarrow> McpFailure (''MCP server call failed: '' @ errorMessage err)
      | Response status body \<Rightarrow>
          if \<not> ok status
          then McpFailure (''MCP server call failed: MCP server responded with status: '' @ show_nat status)
          else (case body of
                  Inl err \<Rightarrow> McpFailure (''MCP server call failed: '' @ errorMessage err)
                | Inr data \<Rightarrow>
                    (case data_error data of
                       Some m \<Rightarrow> McpFailure (''MCP server call failed: MCP server error: '' @ m)
                     | None \<Rightarrow> McpSuccess (result_content data)
                                 (case result_metadata data of None \<Rightarrow> [] | Some md \<Rightarrow> md))))"
  by (simp add: callMCPServer_def mcpEndpoint_def Let_def split: fetched.splits sum.splits option.splits)


lemma hello_document:
  "processDocumentContent base64Hello fixedClock fName fPath fType ''aGVsbG8='' [] =
     Some \<lparr>doc_fileName = fName,
           doc_content = ''hello'',
           doc_chunks = [\<lparr>chunk_id = ''chunk_0'', content = ''hello'', index = 0\<rparr>],
           doc_metadata =
             \<lparr>spread = [], meta_fileName = fName, meta_filePath = fPath, meta_fileType = fType,
              processedAt = ''2024-01-01T00:00:00.000Z'', chunkCount = 1, originalSize = 5,
              source = ''local_file'', mcpProcessed = True\<rparr>\<rparr>"
  by (simp add: processDocumentContent_value decodedText_def base64Hello_def chunkTotal_def
        chunkAt_def show_0 fixedClock_def)

lemma show_503: "show_nat 503 = ''503''" by code_simp

section \<open>Properties of chunkContent\<close>

text \<open>
  Put together as they are, in index order, the chunks give back the text: the loop
  advances by the chunk size and cuts windows of the chunk size, so consecutive chunks share
  no character, and \<open>reassemble 0\<close> is the plain concatenation.
\<close>

lemma chunks_concatenate_as_they_are:
  assumes "0 < chunkSize"
  shows "\<exists>chunks. chunkContent str chunkSize = Some chunks
           \<and> map index chunks = map int [0 ..< length chunks]
           \<and> concat (map content chunks) = str
           \<and> reassemble 0 chunks = str"
proof -
  let ?m = "nat chunkSize"
  let ?cs = "map (chunkAt str ?m) [0 ..< chunkTotal (length str) ?m]"
  have m: "0 < ?m" using assms by simp
  have "chunkContent str chunkSize = Some ?cs" by (rule chunkContent_positive [OF assms])
  moreover have "map index ?cs = map int [0 ..< length ?cs]"
    using index_chunks [of str ?m "chunkTotal (length str) ?m"] by simp
  moreover have "concat (map content ?cs) = str" by (rule concat_chunkAt [OF m])
  moreover have "reassemble 0 ?cs = str" using concat_chunkAt [OF m, of str] by (simp only: reassemble_zero)
  ultimately show ?thesis by blast
qed


text \<open>
  Claim C6. For every text and every chunk size above zero, every chunk returned has a
  content of at most \<open>chunkSize\<close> characters, and the indexes are \<open>0, 1, 2, ...\<close> in the order
  the chunks were pushed.
\<close>

theorem chunks_bounded_and_numbered:
  assumes "0 < chunkSize"
  shows "\<exists>chunks. chunkContent str chunkSize = Some chunks
           \<and> (\<forall>c \<in> set chunks. int (length (content c)) \<le> chunkSize)
           \<and> map index chunks = map int [0 ..< length chunks]"
proof -
  let ?m = "nat chunkSize"
  let ?cs = "map (chunkAt str ?m) [0 ..< chunkTotal (length str) ?m]"
  have "chunkContent str chunkSize = Some ?cs" by (rule chunkContent_positive [OF assms])
  moreover have "\<forall>c \<in> set ?cs. int (length (content c)) \<le> chunkSize"
    using assms by (auto simp: content_chunkAt)
  moreover have "map index ?cs = map int [0 ..< length ?cs]"
    using index_chunks [of str ?m "chunkTotal (length str) ?m"] by simp
  ultimately show ?thesis by blast
qed

theorem chunks_bounded_and_numbered_witness:
  "(0::int) < 4 \<and> (\<exists>chunks. chunkContent ''hello world'' 4 = Some chunks
     \<and> (\<forall>c \<in> set chunks. int (length (content c)) \<le> 4)
     \<and> map index chunks = map int [0 ..< length chunks])"
  using chunks_bounded_and_numbered [of 4 "''hello world''"] by simp

text \<open>
  Claim C7. On the empty text the loop body never runs: the result is the empty sequence
  of chunks, not one empty chunk. This holds for every chunk size, the positive ones among
  them.
\<close>

theorem empty_text_no_chunks: "chunkContent [] chunkSize = Some []"
  unfolding chunkContent_def by (subst chunkLoop.simps) simp

text \<open>
  Claim C4 says that consecutive chunks share the configured number of overlap characters,
  and the repository's guide to this route gives the number: "Overlap: 200 characters
  between chunks". The loop has no overlap. On a text of 1000 letters \<open>a\<close> followed by 200
  letters \<open>b\<close>, with the default chunk size, the first chunk is the 1000 \<open>a\<close> and the second the
  200 \<open>b\<close>: the last 200 characters of the first are not the first 200 of the second.
\<close>

theorem consecutive_chunks_share_nothing:
  "\<exists>c0 c1. chunkContent (replicate 1000 CHR ''a'' @ replicate 200 CHR ''b'') defaultChunkSize = Some [c0, c1]
     \<and> content c0 = replicate 1000 CHR ''a''
     \<and> content c1 = replicate 200 CHR ''b''
     \<and> drop (length (content c0) - 200) (content c0) = replicate 200 CHR ''a''
     \<and> take 200 (content c1) = replicate 200 CHR ''b''"
  using two_chunks [of "replicate 1000 CHR ''a'' @ replicate 200 CHR ''b''"] by simp

text \<open>
  Claim C5 says that the chunking prefers a sentence or whitespace boundary near the chunk
  size to an exact cut, and the repository's guide says "Smart Splitting: Respects sentence
  boundaries". The loop always cuts at exact multiples of the chunk size. On 996 letters
  \<open>a\<close> followed by \<open>. Hello\<close>, with the default chunk size, the sentence ends three
  characters before position 1000, and the cut still falls inside the word: the chunks end
  in \<open>. He\<close> and begin with \<open>llo\<close>.
\<close>

theorem cut_ignores_sentence_boundary:
  "\<exists>c0 c1. chunkContent (replicate 996 CHR ''a'' @ ''. Hello'') defaultChunkSize = Some [c0, c1]
     \<and> content c0 = replicate 996 CHR ''a'' @ ''. He''
     \<and> content c1 = ''llo''"
  using two_chunks [of "replicate 996 CHR ''a'' @ ''. Hello''"] by simp

section \<open>Properties of processDocumentContent\<close>

text \<open>
  Claim C10. Processing a document always succeeds, and its metadata agree with its chunks:
  \<open>chunkCount\<close> is the number of chunks returned, which is the length of the decoded text
  divided by the chunk size and rounded up, and \<open>originalSize\<close> is the length of the decoded
  text. The decoded text is the document's \<open>content\<close>: what the decoder returns, or the
  content as received when the decoder throws.
\<close>

theorem processed_metadata_consistent:
  "\<exists>d. processDocumentContent decode clock fName fPath fType cont md = Some d
     \<and> doc_content d = (case decode cont of Inl err \<Rightarrow> cont | Inr decoded \<Rightarrow> decoded)
     \<and> chunkCount (doc_metadata d) = length (doc_chunks d)
     \<and> int (length (doc_chunks d)) = \<lceil>real (length (doc_content d)) / real_of_int defaultChunkSize\<rceil>
     \<and> originalSize (doc_metadata d) = length (doc_content d)"
  using ceiling_chunks [of "length (decodedText decode cont)"]
  by (simp add: processDocumentContent_value chunkTotal_def defaultChunkSize_def decodedText_def)

section \<open>Properties of getMimeType\<close>

text \<open>
  Claim C9, as amended. The lookup goes by the text after the last dot, in lower case, and a
  name with no dot is looked up whole. For every file name whose last segment is not the name
  of a property inherited from \<^verbatim>\<open>Object.prototype\<close>, the lookup returns a string; if that
  segment is moreover not one of the seven extensions of the table, the string is
  \<open>application/octet-stream\<close>.
\<close>

theorem getMimeType_string_and_default:
  assumes "lastSegment file \<notin> set objectPrototypeKeys"
  shows "(\<exists>mime. getMimeType file = Str mime)
         \<and> (lastSegment file \<notin> {''pdf'', ''docx'', ''txt'', ''md'', ''html'', ''jpg'', ''png''}
              \<longrightarrow> getMimeType file = Str ''application/octet-stream'')"
proof (cases "map_of mimeTypes (lastSegment file)")
  case None
  then have "getMimeType file = Str ''application/octet-stream''"
    using assms by (simp add: getMimeType_by_segment getProperty_def)
  then show ?thesis by simp
next
  case (Some v)
  then have "v \<noteq> []" by (rule mimeTypes_lookup)
  with Some have "getMimeType file = Str v"
    by (simp add: getMimeType_by_segment getProperty_def)
  moreover have "lastSegment file \<in> {''pdf'', ''docx'', ''txt'', ''md'', ''html'', ''jpg'', ''png''}"
    using Some mimeTypes_unknown [of "lastSegment file"] by fastforce
  ultimately show ?thesis by simp
qed

theorem getMimeType_string_and_default_witness:
  "lastSegment ''archive.tar.GZ'' \<notin> set objectPrototypeKeys
   \<and> lastSegment ''archive.tar.GZ'' \<notin> {''pdf'', ''docx'', ''txt'', ''md'', ''html'', ''jpg'', ''png''}
   \<and> getMimeType ''archive.tar.GZ'' = Str ''application/octet-stream''"
  using getMimeType_string_and_default [of "''archive.tar.GZ''"]
  by (simp add: seg_gz objectPrototypeKeys_def)

text \<open>
  The claim as it was stated fails on a name without an extension that spells one: \<open>pdf\<close>
  has no dot and gets \<open>application/pdf\<close>. It also fails on \<open>a.constructor\<close>, for which the
  lookup returns the inherited constructor function and no string.
\<close>

theorem getMimeType_bare_name_counterexample:
  "CHR ''.'' \<notin> set ''pdf''
   \<and> getMimeType ''pdf'' = Str ''application/pdf''
   \<and> getMimeType ''pdf'' \<noteq> Str ''application/octet-stream''
   \<and> getMimeType ''a.constructor'' = Inherited ''constructor''"
  by code_simp

section \<open>Properties of the handlers\<close>




text \<open>
  Claim C3, as amended. The ingestion consults no list of allowed extensions: whatever the
  file name, the request goes to the \<open>read_file\<close> tool of the MCP server, and the ingestion
  succeeds (status 200) exactly when that call does not fail; when it fails, for a rejected
  extension or anything else, the caller gets status 500 with \<open>success: false\<close>.
\<close>

theorem ingest_outcome_follows_mcp_reply:
  "\<exists>r. POST e mcp onyx decode clock random (Inr body) = Some r
     \<and> post_success r = (\<not> mcpFailed (mcp (mcpEndpoint e) ''read_file'' (readFileArgs body)))
     \<and> post_status r = (if post_success r then 200 else 500)"
proof (cases "callMCPServer e mcp ''read_file'' (readFileArgs body)")
  case (McpSuccess c md)
  then have "\<not> mcpFailed (mcp (mcpEndpoint e) ''read_file'' (readFileArgs body))"
    using callMCPServer_success_iff [of e mcp "''read_file''" "readFileArgs body"] by simp
  then show ?thesis using POST_mcp_success [OF McpSuccess, of decode clock onyx random] by auto
next
  case (McpFailure err)
  then have "mcpFailed (mcp (mcpEndpoint e) ''read_file'' (readFileArgs body))"
    using callMCPServer_success_iff [of e mcp "''read_file''" "readFileArgs body"] by simp
  then show ?thesis using POST_mcp_failure [OF McpFailure, of onyx decode clock random] by simp
qed

theorem ingest_outcome_follows_mcp_reply_witness:
  "\<exists>r. POST noEnv denying onyxStoring base64Hello fixedClock fixedRandom (Inr setupExe) = Some r
     \<and> \<not> post_success r \<and> post_status r = 500"
  using ingest_outcome_follows_mcp_reply [of noEnv denying onyxStoring base64Hello fixedClock fixedRandom setupExe]
  by (auto simp: denying_def ok_def)

text \<open>
  The claim as it was stated fails: \<open>setup.exe\<close> is ingested when the MCP server returns its
  content.
\<close>

theorem no_whitelist_counterexample:
  "lastSegment (fileName setupExe) = ''exe''
   \<and> POST noEnv servingHello onyxStoring base64Hello fixedClock fixedRandom (Inr setupExe)
       = Some (Ingested ''Successfully ingested setup.exe into Onyx'' (Some ''42'') (Some ''7'') 1
                 \<lparr>spread = [], meta_fileName = ''setup.exe'', meta_filePath = ''/tmp/setup.exe'',
                  meta_fileType = ''file'', processedAt = ''2024-01-01T00:00:00.000Z'',
                  chunkCount = 1, originalSize = 5, source = ''local_file'', mcpProcessed = True\<rparr>)"
proof -
  have "lastSegment ''setup.exe'' = ''exe''" by code_simp
  then show ?thesis
    by (simp add: POST_def callMCPServer_def servingHello_def onyxStoring_def
        noEnv_def orDefault_def ok_def setupExe_def hello_document addDocumentToOnyx_def Let_def)
qed

text \<open>
  Claim C8, as amended. The error payload of a failed ingestion is the fixed text
  \<open>Failed to ingest file: \<close> followed by the message of what was caught; for a failed MCP
  call that is \<open>MCP server error: MCP server call failed: \<close> followed by the raw text of the
  failure: the message of the rejected fetch or of the body that did not parse, the status,
  or the error message the server sent.
\<close>

theorem ingest_error_carries_raw_text:
  "(mcp (mcpEndpoint e) ''read_file'' (readFileArgs body) = Rejected err
      \<longrightarrow> POST e mcp onyx decode clock random (Inr body)
           = Some (Failed (''Failed to ingest file: MCP server error: MCP server call failed: ''
                           @ errorMessage err)))
   \<and> (mcp (mcpEndpoint e) ''read_file'' (readFileArgs body) = Response status reply \<and> \<not> ok status
      \<longrightarrow> POST e mcp onyx decode clock random (Inr body)
           = Some (Failed (''Failed to ingest file: MCP server error: MCP server call failed: ''
                           @ ''MCP server responded with status: '' @ show_nat status)))
   \<and> (mcp (mcpEndpoint e) ''read_file'' (readFileArgs body) = Response status (Inl err) \<and> ok status
      \<longrightarrow> POST e mcp onyx decode clock random (Inr body)
           = Some (Failed (''Failed to ingest file: MCP server error: MCP server call failed: ''
                           @ errorMessage err)))
   \<and> (mcp (mcpEndpoint e) ''read_file'' (readFileArgs body) = Response status (Inr data) \<and> ok status
        \<and> data_error data = Some m
      \<longrightarrow> POST e mcp onyx decode clock random (Inr body)
           = Some (Failed (''Failed to ingest file: MCP server error: MCP server call failed: ''
                           @ ''MCP server error: '' @ m)))
   \<and> POST e mcp onyx decode clock random (Inl err)
       = Some (Failed (''Failed to ingest file: '' @ errorMessage err))"
proof (intro conjI impI)
  assume "mcp (mcpEndpoint e) ''read_file'' (readFileArgs body) = Rejected err"
  then have "callMCPServer e mcp ''read_file'' (readFileArgs body)
               = McpFailure (''MCP server call failed: '' @ errorMessage err)"
    by (simp add: callMCPServer_by_endpoint)
  from POST_mcp_failure [OF this]
  show "POST e mcp onyx decode clock random (Inr body)
           = Some (Failed (''Failed to ingest file: MCP server error: MCP server call failed: ''
                           @ errorMessage err))" by simp
next
  assume "mcp (mcpEndpoint e) ''read_file'' (readFileArgs body) = Response status reply \<and> \<not> ok status"
  then have "callMCPServer e mcp ''read_file'' (readFileArgs body)
               = McpFailure (''MCP server call failed: MCP server responded with status: '' @ show_nat status)"
    by (simp add: callMCPServer_by_endpoint)
  from POST_mcp_failure [OF this]
  show "POST e mcp onyx decode clock random (Inr body)
           = Some (Failed (''Failed to ingest file: MCP server error: MCP server call failed: ''
                           @ ''MCP server responded with status: '' @ show_nat status))" by simp
next
  assume "mcp (mcpEndpoint e) ''read_file'' (readFileArgs body) = Response status (Inl err) \<and> ok status"
  then have "callMCPServer e mcp ''read_file'' (readFileArgs body)
               = McpFailure (''MCP server call failed: '' @ errorMessage err)"
    by (simp add: callMCPServer_by_endpoint)
  from POST_mcp_failure [OF this]
  show "POST e mcp onyx decode clock random (Inr body)
           = Some (Failed (''Failed to ingest file: MCP server error: MCP server call failed: ''
                           @ errorMessage err))" by simp
next
  assume "mcp (mcpEndpoint e) ''read_file'' (readFileArgs body) = Response status (Inr data) \<and> ok status
        \<and> data_error data = Some m"
  then have "callMCPServer e mcp ''read_file'' (readFileArgs body)
               = McpFailure (''MCP server call failed: MCP server error: '' @ m)"
    by (simp add: callMCPServer_by_endpoint)
  from POST_mcp_failure [OF this]
  show "POST e mcp onyx decode clock random (Inr body)
           = Some (Failed (''Failed to ingest file: MCP server error: MCP server call failed: ''
                           @ ''MCP server error: '' @ m))" by simp
next
  show "POST e mcp onyx decode clock random (Inl err)
       = Some (Failed (''Failed to ingest file: '' @ errorMessage err))"
    by (simp add: POST_def caught_def)
qed

theorem ingest_error_carries_raw_text_witness:
  "POST noEnv unreachable onyxStoring base64Hello fixedClock fixedRandom (Inr setupExe)
     = Some (Failed ''Failed to ingest file: MCP server error: MCP server call failed: connect ECONNREFUSED 127.0.0.1:8001'')
   \<and> POST noEnv busy onyxStoring base64Hello fixedClock fixedRandom (Inr setupExe)
     = Some (Failed ''Failed to ingest file: MCP server error: MCP server call failed: MCP server responded with status: 503'')
   \<and> POST noEnv garbled onyxStoring base64Hello fixedClock fixedRandom (Inr setupExe)
     = Some (Failed ''Failed to ingest file: MCP server error: MCP server call failed: Unexpected token < in JSON at position 0'')
   \<and> POST noEnv denying onyxStoring base64Hello fixedClock fixedRandom (Inr setupExe)
     = Some (Failed ''Failed to ingest file: MCP server error: MCP server call failed: MCP server error: EACCES: permission denied, open /home/alice/.ssh/id_rsa'')"
  using
    ingest_error_carries_raw_text [of unreachable noEnv setupExe "Error ''connect ECONNREFUSED 127.0.0.1:8001''"
      onyxStoring base64Hello fixedClock fixedRandom]
    ingest_error_carries_raw_text [of busy noEnv setupExe _ onyxStoring base64Hello fixedClock fixedRandom
      503 "Inl NonError"]
    ingest_error_carries_raw_text [of garbled noEnv setupExe "Error ''Unexpected token < in JSON at position 0''"
      onyxStoring base64Hello fixedClock fixedRandom 200]
    ingest_error_carries_raw_text [of denying noEnv setupExe _ onyxStoring base64Hello fixedClock fixedRandom
      200 _ "\<lparr>data_error = Some ''EACCES: permission denied, open /home/alice/.ssh/id_rsa'',
                         result_content = None, result_metadata = None\<rparr>"
      "''EACCES: permission denied, open /home/alice/.ssh/id_rsa''"]
  by (simp add: unreachable_def busy_def garbled_def denying_def ok_def show_503)

text \<open>
  The claim as it was stated fails: the error text of the MCP server, a path of the file
  system in it, reaches the caller.
\<close>

theorem raw_error_text_counterexample:
  "POST noEnv denying onyxStoring base64Hello fixedClock fixedRandom (Inr setupExe)
     = Some (Failed ''Failed to ingest file: MCP server error: MCP server call failed: MCP server error: EACCES: permission denied, open /home/alice/.ssh/id_rsa'')"
  by (simp add: POST_def callMCPServer_def denying_def noEnv_def orDefault_def ok_def setupExe_def
        caught_def Let_def)

end
